theory Spec2Isabelle
  imports Complex_Main "HOL-Library.Word" "HOL-Library.Monad_Syntax"
begin

unbundle bit_operations_syntax

section \<open>couchtap: the TAP client of lib/client.js\<close>

text \<open>
  The development embeds \<^verbatim>\<open>lib/client.js\<close>: the \<^verbatim>\<open>Client\<close> object with its
  \<^verbatim>\<open>_connected\<close> flag, its options and its current mode, the outgoing requests
  (\<^verbatim>\<open>_requestSASLMechs\<close>, \<^verbatim>\<open>_requestSASLAuth\<close>, \<^verbatim>\<open>setMode\<close>), the dispatch of an
  inbound packet (\<^verbatim>\<open>_onData\<close> and the table \<^verbatim>\<open>Client.handlers\<close>) and the six handlers.

  Everything the client does to the outside is appended to one chronological log
  (\<open>trace\<close>): a notification given to the subscribers (\<^verbatim>\<open>this.emit\<close>), a packet handed
  to the connection (\<^verbatim>\<open>this._conn.send\<close>), a close or a connect of the connection. A
  JavaScript exception is a value: every operation returns the exception it threw, if
  any, together with the client as it was when the exception left the operation.
\<close>

subsection \<open>Buffers and strings\<close>

text \<open>
  A Node \<^verbatim>\<open>Buffer\<close> is a list of bytes. A JavaScript string is represented by its
  well-formed UTF-8 bytes, as a HOL \<open>string\<close>: \<^verbatim>\<open>new Buffer(str)\<close> (UTF-8 by default)
  then reads the characters back as bytes.
\<close>

type_synonym byte = "8 word"
type_synonym buffer = "byte list"

datatype js_error = Error string | RangeError

definition Buffer_from :: "string \<Rightarrow> buffer" where
  "Buffer_from s = map of_char s"

text \<open>
  \<^verbatim>\<open>buf.slice(start, end)\<close> and \<^verbatim>\<open>buf.slice(start)\<close> for offsets that are not negative
  (all offsets of the client are unsigned): both ends are clamped to the buffer, and an
  end before the start gives the empty buffer.
\<close>

definition slice :: "buffer \<Rightarrow> nat \<Rightarrow> nat \<Rightarrow> buffer" where
  "slice buf start end = take (end - start) (drop start buf)"

definition slice_from :: "buffer \<Rightarrow> nat \<Rightarrow> buffer" where
  "slice_from buf start = drop start buf"

text \<open>
  The big-endian reads of a Buffer. A read that does not fit in the buffer throws (an
  assertion error in the Node of the package's time, a \<^verbatim>\<open>RangeError\<close> since): \<open>None\<close>.
\<close>

definition readUInt8 :: "buffer \<Rightarrow> nat \<Rightarrow> nat option" where
  "readUInt8 buf offset =
     (if offset + 1 \<le> length buf then Some (unat (buf ! offset)) else None)"

definition readUInt16BE :: "buffer \<Rightarrow> nat \<Rightarrow> nat option" where
  "readUInt16BE buf offset =
     (if offset + 2 \<le> length buf
      then Some (unat (buf ! offset) * 256 + unat (buf ! (offset + 1)))
      else None)"

definition readUInt32BE :: "buffer \<Rightarrow> nat \<Rightarrow> nat option" where
  "readUInt32BE buf offset =
     (if offset + 4 \<le> length buf
      then Some (unat (buf ! offset) * 16777216 + unat (buf ! (offset + 1)) * 65536
                 + unat (buf ! (offset + 2)) * 256 + unat (buf ! (offset + 3)))
      else None)"

text \<open>
  \<^verbatim>\<open>buf.toString('utf8')\<close>. Node decodes as the WHATWG encoding standard says: a
  well-formed sequence is one character, and every maximal ill-formed part becomes one
  U+FFFD. On the representation of strings by their UTF-8 bytes this copies the
  well-formed sequences and writes \<^verbatim>\<open>EF BF BD\<close> for each ill-formed part. The state of
  the decoder is \<open>None\<close> between characters and, inside a sequence, the number of
  continuation bytes still needed, the bounds of the next one and the bytes seen. The
  properties below rest on two facts only: ASCII bytes are kept as they are, and the
  string is empty for the empty buffer alone.
\<close>

definition utf8_lead :: "nat \<Rightarrow> (nat \<times> nat \<times> nat) option" where
  "utf8_lead b =
    (if 0xC2 \<le> b \<and> b \<le> 0xDF then Some (1, 0x80, 0xBF)
     else if 0xE0 \<le> b \<and> b \<le> 0xEF then
       Some (2, if b = 0xE0 then 0xA0 else 0x80, if b = 0xED then 0x9F else 0xBF)
     else if 0xF0 \<le> b \<and> b \<le> 0xF4 then
       Some (3, if b = 0xF0 then 0x90 else 0x80, if b = 0xF4 then 0x8F else 0xBF)
     else None)"

definition replacement :: buffer where
  "replacement = [0xEF, 0xBF, 0xBD]"

fun utf8_decode :: "(nat \<times> nat \<times> nat \<times> buffer) option \<Rightarrow> buffer \<Rightarrow> buffer" where
  "utf8_decode None [] = []"
| "utf8_decode (Some st) [] = replacement"
| "utf8_decode None (b # bs) =
     (if unat b \<le> 0x7F then b # utf8_decode None bs
      else case utf8_lead (unat b) of
             None \<Rightarrow> replacement @ utf8_decode None bs
           | Some (n, lo, hi) \<Rightarrow> utf8_decode (Some (n, lo, hi, [b])) bs)"
| "utf8_decode (Some (n, lo, hi, seen)) (b # bs) =
     (if lo \<le> unat b \<and> unat b \<le> hi then
        (if n = 1 then seen @ [b] @ utf8_decode None bs
         else utf8_decode (Some (n - 1, 0x80, 0xBF, seen @ [b])) bs)
      else replacement @ utf8_decode None (b # bs))"

definition toString_utf8 :: "buffer \<Rightarrow> string" where
  "toString_utf8 buf = map (\<lambda>x. char_of (unat x)) (utf8_decode None buf)"

text \<open>\<^verbatim>\<open>buf.toString('ascii')\<close>: the high bit of every byte is cleared.\<close>

definition toString_ascii :: "buffer \<Rightarrow> string" where
  "toString_ascii buf = map (\<lambda>x. char_of (unat x mod 128)) buf"

text \<open>\<^verbatim>\<open>str.split(' ')\<close>: the parts between the spaces, the empty ones too.\<close>

fun split_space :: "string \<Rightarrow> string list" where
  "split_space [] = [[]]"
| "split_space (ch # cs) =
     (if ch = CHR '' '' then [] # split_space cs
      else (ch # hd (split_space cs)) # tl (split_space cs))"

subsection \<open>The collaborators: lib/factory.js, lib/connection.js, node-int64\<close>

text \<open>
  The header object of \<^verbatim>\<open>factory.createHeader()\<close>. The client sets \<open>magic\<close>,
  \<open>opcode\<close>, \<open>keyLength\<close>, \<open>extrasLength\<close> and \<open>dataLength\<close> (the 4-byte total body
  length of the wire format); the other fields are the remaining ones of the 24-byte
  header.
\<close>

record header =
  magic :: nat
  opcode :: nat
  keyLength :: nat
  extrasLength :: nat
  dataType :: nat
  status :: nat
  dataLength :: nat
  opaque :: nat
  cas :: nat

text \<open>
  Modelled from the spec: \<^verbatim>\<open>lib/factory.js\<close> is not among the sources.
  \<^verbatim>\<open>createHeader\<close> gives a header with every field zero; \<^verbatim>\<open>createUInt16BE\<close> and
  \<^verbatim>\<open>createUInt32BE\<close> give the big-endian bytes of an unsigned integer, with no
  validation but the range check of the encoding (a value out of range throws: \<open>None\<close>).
\<close>

definition createHeader :: header where
  "createHeader = \<lparr>magic = 0, opcode = 0, keyLength = 0, extrasLength = 0, dataType = 0,
     status = 0, dataLength = 0, opaque = 0, cas = 0\<rparr>"

definition uint16be :: "nat \<Rightarrow> buffer" where
  "uint16be v = [of_nat (v div 256), of_nat (v mod 256)]"

definition uint32be :: "nat \<Rightarrow> buffer" where
  "uint32be v = [of_nat (v div 16777216), of_nat (v div 65536 mod 256),
                 of_nat (v div 256 mod 256), of_nat (v mod 256)]"

definition createUInt16BE :: "nat \<Rightarrow> buffer option" where
  "createUInt16BE v = (if v < 65536 then Some (uint16be v) else None)"

definition createUInt32BE :: "nat \<Rightarrow> buffer option" where
  "createUInt32BE v = (if v < 4294967296 then Some (uint32be v) else None)"

text \<open>
  Modelled from the spec: the package node-int64 is not among the sources.
  \<^verbatim>\<open>(new Int64(v)).buffer\<close>, for a number \<open>v\<close>, is the encoding of a signed 64-bit
  integer, big-endian: the eight bytes of the two's complement, the most significant
  first. A JavaScript number is modelled by the rational it stands for (every double is
  one; the rationals that no double holds cannot be passed, and neither NaN nor the
  infinities are modelled). Outside the signed 64-bit integers the model follows the
  package, which the wire format does not describe: it splits the magnitude into two
  32-bit halves, throws a \<^verbatim>\<open>RangeError\<close> when the upper half exceeds \<open>2 ^ 32\<close> (a
  magnitude above \<open>2 ^ 64\<close>), keeps the low 32 bits of the integer part of each half
  and negates the bytes of a negative number. So the fraction of \<open>v\<close> is dropped
  (\<open>to_integer\<close>), and the bytes are those of the integer modulo \<open>2 ^ 64\<close>: \<open>2 ^ 63\<close> is
  encoded as 80 00 00 00 00 00 00 00, and \<open>2 ^ 64\<close> as eight zero bytes.
\<close>

definition to_integer :: "rat \<Rightarrow> int" where
  "to_integer v = (if v < 0 then - \<lfloor>- v\<rfloor> else \<lfloor>v\<rfloor>)"

definition int64be :: "int \<Rightarrow> buffer" where
  "int64be v = map (\<lambda>i. of_int (v div 256 ^ i)) [7, 6, 5, 4, 3, 2, 1, 0]"

definition Int64_buffer :: "rat \<Rightarrow> buffer option" where
  "Int64_buffer v =
     (if \<bar>v\<bar> \<le> 18446744073709551616 then Some (int64be (to_integer v)) else None)"

subsection \<open>Options, modes, events\<close>

text \<open>
  The options given to \<^verbatim>\<open>new Client(opts)\<close>; \<open>None\<close> is a property that is not
  there. The fields are \<^verbatim>\<open>opts.name\<close>, \<^verbatim>\<open>opts.host\<close> and so on.
\<close>

record mode =
  backfill :: "rat option"
  dump :: bool
  vbuckets :: "nat list option"
  takover :: bool
  enableAcks :: bool
  keysOnly :: bool
  registred :: bool

record opts =
  opts_name :: "string option"
  opts_host :: "string option"
  opts_port :: "nat option"
  opts_bucket :: "string option"
  opts_password :: "string option"
  opts_mode :: "mode option"
  opts_connect :: bool

text \<open>
  The \<^verbatim>\<open>misc\<close> object of a decoded event: the header as a plain object and the fields
  read from the extras. The extras field the source calls \<open>engine\<close> is the length of
  the item's metadata.
\<close>

record tap_extras =
  engine :: nat
  flags :: nat
  ttl :: nat
  reserved :: buffer

record mutation_extras = tap_extras +
  itemFlags :: nat
  itemExpiry :: nat

record 'e misc =
  misc_header :: header
  misc_extras :: 'e

record opaque_flags =
  flag_enableAcks :: bool
  flag_startBackfill :: bool
  flag_enableCheckpoints :: bool
  flag_openChekpoint :: bool
  flag_startOnlineUpdate :: bool
  flag_stopOnlineUpdate :: bool
  flag_closeStream :: bool
  flag_closeBackfill :: bool

datatype event =
    Ev_data header buffer buffer buffer
  | Ev_connect
  | Ev_error js_error
  | Ev_close
  | Ev_end
  | Ev_mutation buffer string string "mutation_extras misc"
  | Ev_delete buffer string "tap_extras misc"
  | Ev_flush "tap_extras misc"
  | Ev_opaque opaque_flags "tap_extras misc"

datatype effect =
    Emit event
  | Send header "buffer list"
  | ConnClose
  | ConnConnect "string option" nat

subsection \<open>The client\<close>

text \<open>
  \<open>connected\<close> is \<^verbatim>\<open>this._connected\<close> and \<open>mode\<close> is \<^verbatim>\<open>this.mode\<close>.
  \<open>errorListener\<close> says whether a subscriber listens to \<^verbatim>\<open>'error'\<close>: the client
  inherits from Node's \<^verbatim>\<open>events.EventEmitter\<close>, whose \<^verbatim>\<open>emit('error', err)\<close> throws
  \<open>err\<close> when nobody listens to that event. The subscribers themselves only observe:
  they neither throw nor call the client back. \<open>Client\<close> is the constructor (the
  connect it defers with \<^verbatim>\<open>setImmediate\<close> when \<^verbatim>\<open>opts.connect\<close> is set is a later call
  of \<open>connect\<close>), and \<open>on_error\<close> is \<^verbatim>\<open>client.on('error', listener)\<close>.
\<close>

record client =
  opts :: opts
  connected :: bool
  mode :: "mode option"
  errorListener :: bool
  trace :: "effect list"

type_synonym outcome = "js_error option \<times> client"

definition Client :: "opts \<Rightarrow> client" where
  "Client os = \<lparr>opts = os, connected = False, mode = None, errorListener = False,
     trace = []\<rparr>"

definition on_error :: "client \<Rightarrow> client" where
  "on_error c = c\<lparr>errorListener := True\<rparr>"

definition log :: "effect \<Rightarrow> client \<Rightarrow> client" where
  "log e c = c\<lparr>trace := trace c @ [e]\<rparr>"

definition emit :: "event \<Rightarrow> client \<Rightarrow> outcome" where
  "emit ev c =
     (case ev of
        Ev_error err \<Rightarrow> if errorListener c then (None, log (Emit ev) c) else (Some err, c)
      | _ \<Rightarrow> (None, log (Emit ev) c))"

text \<open>The next statement runs unless the one before it threw.\<close>

definition and_then :: "outcome \<Rightarrow> (client \<Rightarrow> outcome) \<Rightarrow> outcome" where
  "and_then r f = (case fst r of None \<Rightarrow> f (snd r) | Some e \<Rightarrow> (Some e, snd r))"

text \<open>
  Modelled from the spec: \<^verbatim>\<open>lib/connection.js\<close> is not among the sources. The
  transport collaborator takes what it is given: \<^verbatim>\<open>send\<close> the header and the buffers
  of a packet, \<^verbatim>\<open>close\<close>, \<^verbatim>\<open>connect\<close>; what it signals later comes back through
  \<open>onConnect\<close>, \<open>onData\<close>, \<open>onError\<close>, \<open>onClose\<close> and \<open>onEnd\<close>.
\<close>

definition conn_send :: "header \<Rightarrow> buffer list \<Rightarrow> client \<Rightarrow> client" where
  "conn_send h bufs c = log (Send h bufs) c"

definition conn_close :: "client \<Rightarrow> client" where
  "conn_close c = log ConnClose c"

definition conn_connect :: "string option \<Rightarrow> nat \<Rightarrow> client \<Rightarrow> client" where
  "conn_connect h p c = log (ConnConnect h p) c"

subsubsection \<open>Methods and transport events\<close>

definition connect :: "client \<Rightarrow> client" where
  "connect c =
     conn_connect (opts_host (opts c))
       (case opts_port (opts c) of None \<Rightarrow> 11210 | Some p \<Rightarrow> if p = 0 then 11210 else p) c"

definition close :: "client \<Rightarrow> client" where
  "close c = conn_close c"

definition requestSASLMechs :: "client \<Rightarrow> client" where
  "requestSASLMechs c = conn_send (createHeader\<lparr>magic := 0x80, opcode := 0x20\<rparr>) [] c"

definition onConnect :: "client \<Rightarrow> client" where
  "onConnect c = requestSASLMechs c"

definition onError :: "js_error \<Rightarrow> client \<Rightarrow> outcome" where
  "onError err c = emit (Ev_error err) (c\<lparr>connected := False\<rparr>)"

definition onClose :: "client \<Rightarrow> outcome" where
  "onClose c = emit Ev_close (c\<lparr>connected := False\<rparr>)"

definition onEnd :: "client \<Rightarrow> outcome" where
  "onEnd c = emit Ev_end (c\<lparr>connected := False\<rparr>)"

subsubsection \<open>Outgoing datagrams\<close>

text \<open>
  The credential collaborator \<^verbatim>\<open>sasl_plain.response\<close> (the PLAIN mechanism of the
  packages saslmechanisms and sasl-plain) is a parameter, \<open>response\<close>: it gets the
  username (\<^verbatim>\<open>opts.bucket\<close>) and the password and gives the response string. The list of
  mechanisms the server offered is passed to \<^verbatim>\<open>_requestSASLAuth\<close>, which does not read it.
\<close>

type_synonym sasl = "string option \<Rightarrow> string option \<Rightarrow> string"

definition requestSASLAuth :: "sasl \<Rightarrow> string list \<Rightarrow> client \<Rightarrow> client" where
  "requestSASLAuth response mechs c =
     (let key = Buffer_from ''PLAIN'';
          body = Buffer_from (response (opts_bucket (opts c)) (opts_password (opts c)));
          h = createHeader\<lparr>magic := 0x80, opcode := 0x21, keyLength := length key,
                dataLength := length key + length body\<rparr>
      in conn_send h [key, body] c)"

text \<open>
  \<^verbatim>\<open>setMode\<close>. A number is truthy unless it is 0; an array is always truthy. The flag
  word is the bitwise or of lines 107 to 113, the chunks of the body are built by lines
  118 to 127, and the key is \<^verbatim>\<open>new Buffer(this.opts.name || 0)\<close>: the bytes of the name,
  and the buffer of length 0 when there is no name.
\<close>

definition truthy_num :: "rat option \<Rightarrow> bool" where
  "truthy_num v = (case v of None \<Rightarrow> False | Some n \<Rightarrow> n \<noteq> 0)"

definition setMode_flags :: "mode \<Rightarrow> 32 word" where
  "setMode_flags md =
     (if truthy_num (backfill md) then 0x01 else 0) OR
     (if dump md then 0x02 else 0) OR
     (if vbuckets md \<noteq> None then 0x04 else 0) OR
     (if takover md then 0x08 else 0) OR
     (if enableAcks md then 0x10 else 0) OR
     (if keysOnly md then 0x20 else 0) OR
     (if registred md then 0x80 else 0)"

fun push_vbuckets :: "nat list \<Rightarrow> buffer list \<Rightarrow> buffer list option" where
  "push_vbuckets [] chunks = Some chunks"
| "push_vbuckets (vbucket # vs) chunks =
     (case createUInt16BE vbucket of
        None \<Rightarrow> None
      | Some b \<Rightarrow> push_vbuckets vs (chunks @ [b]))"

definition setMode_chunks :: "mode \<Rightarrow> buffer list option" where
  "setMode_chunks md = do {
     chunks \<leftarrow> (if truthy_num (backfill md)
                then map_option (\<lambda>b. [b]) (Int64_buffer (the (backfill md)))
                else Some []);
     (case vbuckets md of
        None \<Rightarrow> Some chunks
      | Some vs \<Rightarrow> do {
          n \<leftarrow> createUInt16BE (length vs);
          push_vbuckets vs (chunks @ [n])
        })
   }"

definition setMode_key :: "opts \<Rightarrow> buffer" where
  "setMode_key os = (case opts_name os of None \<Rightarrow> [] | Some nm \<Rightarrow> Buffer_from nm)"

definition setMode :: "mode \<Rightarrow> client \<Rightarrow> outcome" where
  "setMode md c =
     (if \<not> connected c then (None, c)
      else
        let c1 = c\<lparr>mode := Some md\<rparr> in
        (case createUInt32BE (unat (setMode_flags md)) of
           None \<Rightarrow> (Some RangeError, c1)
         | Some extras \<Rightarrow>
             (let key = setMode_key (opts c1)
              in (case setMode_chunks md of
                    None \<Rightarrow> (Some RangeError, c1)
                  | Some chunks \<Rightarrow>
                      (let body = concat chunks;
                           h = createHeader\<lparr>magic := 0x80, opcode := 0x40,
                                 extrasLength := length extras, keyLength := length key,
                                 dataLength := length extras + length key + length body\<rparr>
                       in (None, conn_send h [extras, key, body] c1))))))"

subsubsection \<open>Incoming datagrams\<close>

definition handleSASLAuth ::
  "header \<Rightarrow> buffer \<Rightarrow> buffer \<Rightarrow> buffer \<Rightarrow> client \<Rightarrow> outcome" where
  "handleSASLAuth h extras key body c =
     (let st = toString_utf8 body in
      if st = [] then
        let c1 = c\<lparr>connected := True\<rparr> in
        and_then
          (case opts_mode (opts c1) of
             Some md \<Rightarrow> setMode md c1
           | None \<Rightarrow> (None, c1))
          (emit Ev_connect)
      else
        and_then (onError (Error st) c) (\<lambda>c'. (None, conn_close c')))"

text \<open>
  \<^verbatim>\<open>_handleSASLMechs\<close> calls \<^verbatim>\<open>this._requestSASLAuth(mechs)\<close>, a method it looks up on the
  client when it runs. The handler takes that method as its first argument,
  \<open>requestAuth\<close>, so that what it is called with can be told; the table of the handlers
  gives it the client's own \<open>requestSASLAuth\<close>.
\<close>

definition handleSASLMechs ::
  "(string list \<Rightarrow> client \<Rightarrow> client) \<Rightarrow>
     header \<Rightarrow> buffer \<Rightarrow> buffer \<Rightarrow> buffer \<Rightarrow> client \<Rightarrow> outcome" where
  "handleSASLMechs requestAuth h extras key body c =
     (let mechs = split_space (toString_ascii extras)
      in (None, requestAuth mechs c))"

definition read_tap_extras :: "buffer \<Rightarrow> tap_extras option" where
  "read_tap_extras extras = do {
     e \<leftarrow> readUInt16BE extras 0;
     f \<leftarrow> readUInt16BE extras 2;
     t \<leftarrow> readUInt8 extras 4;
     Some \<lparr>engine = e, flags = f, ttl = t, reserved = slice extras 5 8\<rparr>
   }"

definition read_mutation_extras :: "buffer \<Rightarrow> mutation_extras option" where
  "read_mutation_extras extras = do {
     e \<leftarrow> readUInt16BE extras 0;
     f \<leftarrow> readUInt16BE extras 2;
     t \<leftarrow> readUInt8 extras 4;
     itf \<leftarrow> readUInt32BE extras 8;
     ite \<leftarrow> readUInt32BE extras 12;
     Some \<lparr>engine = e, flags = f, ttl = t, reserved = slice extras 5 8,
           itemFlags = itf, itemExpiry = ite\<rparr>
   }"

definition handleMutation ::
  "header \<Rightarrow> buffer \<Rightarrow> buffer \<Rightarrow> buffer \<Rightarrow> client \<Rightarrow> outcome" where
  "handleMutation h extras key body c =
     (case read_mutation_extras extras of
        None \<Rightarrow> (Some RangeError, c)
      | Some ex \<Rightarrow>
          let info = \<lparr>misc_header = h, misc_extras = ex\<rparr>;
              metaLength = engine ex;
              metas = slice key 0 metaLength;
              key' = toString_utf8
                       (concat [slice key metaLength (length key), slice body 0 metaLength]);
              body' = toString_utf8 (slice_from body metaLength)
          in emit (Ev_mutation metas key' body' info) c)"

definition handleDelete ::
  "header \<Rightarrow> buffer \<Rightarrow> buffer \<Rightarrow> buffer \<Rightarrow> client \<Rightarrow> outcome" where
  "handleDelete h extras key body c =
     (case read_tap_extras extras of
        None \<Rightarrow> (Some RangeError, c)
      | Some ex \<Rightarrow>
          let info = \<lparr>misc_header = h, misc_extras = ex\<rparr>;
              metaLength = engine ex;
              metas = slice key 0 metaLength;
              key' = toString_utf8
                       (concat [slice key metaLength (length key), slice body 0 metaLength])
          in emit (Ev_delete metas key' info) c)"

definition handleFlush ::
  "header \<Rightarrow> buffer \<Rightarrow> buffer \<Rightarrow> buffer \<Rightarrow> client \<Rightarrow> outcome" where
  "handleFlush h extras key body c =
     (case read_tap_extras extras of
        None \<Rightarrow> (Some RangeError, c)
      | Some ex \<Rightarrow> emit (Ev_flush \<lparr>misc_header = h, misc_extras = ex\<rparr>) c)"

definition handleOpaque ::
  "header \<Rightarrow> buffer \<Rightarrow> buffer \<Rightarrow> buffer \<Rightarrow> client \<Rightarrow> outcome" where
  "handleOpaque h extras key body c =
     (case read_tap_extras extras of
        None \<Rightarrow> (Some RangeError, c)
      | Some ex \<Rightarrow>
          (case readUInt32BE body 0 of
             None \<Rightarrow> (Some RangeError, c)
           | Some w \<Rightarrow>
               emit (Ev_opaque
                 \<lparr>flag_enableAcks = bit w 0, flag_startBackfill = bit w 1,
                  flag_enableCheckpoints = bit w 2, flag_openChekpoint = bit w 3,
                  flag_startOnlineUpdate = bit w 4, flag_stopOnlineUpdate = bit w 5,
                  flag_closeStream = bit w 6, flag_closeBackfill = bit w 7\<rparr>
                 \<lparr>misc_header = h, misc_extras = ex\<rparr>) c))"

text \<open>The table \<^verbatim>\<open>Client.handlers\<close>, from the opcode to the handler.\<close>

definition handlers ::
  "sasl \<Rightarrow> nat \<Rightarrow> (header \<Rightarrow> buffer \<Rightarrow> buffer \<Rightarrow> buffer \<Rightarrow> client \<Rightarrow> outcome) option" where
  "handlers response op =
     (if op = 0x20 then Some (handleSASLMechs (requestSASLAuth response))
      else if op = 0x21 then Some handleSASLAuth
      else if op = 0x41 then Some handleMutation
      else if op = 0x42 then Some handleDelete
      else if op = 0x43 then Some handleFlush
      else if op = 0x44 then Some handleOpaque
      else None)"

definition onData ::
  "sasl \<Rightarrow> header \<Rightarrow> buffer \<Rightarrow> buffer \<Rightarrow> buffer \<Rightarrow> client \<Rightarrow> outcome" where
  "onData response h extras key body c =
     and_then (emit (Ev_data h extras key body) c)
       (\<lambda>c'. case handlers response (opcode h) of
               Some handler \<Rightarrow> handler h extras key body c'
             | None \<Rightarrow> (None, c'))"

subsection \<open>The session states of the specification, and a sample session\<close>

text \<open>
  The client keeps no state variable but \<open>connected\<close> and \<open>mode\<close>. The states the
  specification distinguishes after the handshake are read off these two: the session
  is ready once the authentication succeeded and no mode was requested, and streaming
  once \<^verbatim>\<open>setMode\<close> has recorded a mode on a connected client.
\<close>

datatype session_state = NotConnected | Ready | Streaming

definition session_state :: "client \<Rightarrow> session_state" where
  "session_state c =
     (if connected c then (if mode c = None then Ready else Streaming) else NotConnected)"

text \<open>
  The modes whose numbers fit their fields on the wire, and the body of the request as
  the wire format lays it out: the eight bytes of the start position (the integer part
  of \<^verbatim>\<open>mode.backfill\<close>) when the backfill is asked for, then the number of vbuckets and the vbuckets, two bytes each, when a
  list of vbuckets is given. \<open>join_space\<close> is \<^verbatim>\<open>parts.join(' ')\<close>, what \<^verbatim>\<open>split(' ')\<close>
  undoes.
\<close>

definition mode_encodable :: "mode \<Rightarrow> bool" where
  "mode_encodable md =
     ((case backfill md of None \<Rightarrow> True | Some n \<Rightarrow> \<bar>n\<bar> \<le> 18446744073709551616) \<and>
      (case vbuckets md of
         None \<Rightarrow> True
       | Some vs \<Rightarrow> length vs < 65536 \<and> list_all (\<lambda>v. v < 65536) vs))"

definition mode_body :: "mode \<Rightarrow> buffer" where
  "mode_body md =
     (if truthy_num (backfill md) then int64be (to_integer (the (backfill md))) else []) @
     (case vbuckets md of
        None \<Rightarrow> []
      | Some vs \<Rightarrow> uint16be (length vs) @ concat (map uint16be vs))"

fun join_space :: "string list \<Rightarrow> string" where
  "join_space [] = []"
| "join_space [m] = m"
| "join_space (m # ms) = m @ CHR '' '' # join_space ms"

text \<open>
  The options and the mode of the package's README, the PLAIN response of the package
  sasl-plain (authorization identity, NUL, user, NUL, password), and packets of a
  server.
\<close>

definition ex_opts :: opts where
  "ex_opts = \<lparr>opts_name = Some ''test1'', opts_host = Some ''vm-ubuntu'', opts_port = None,
     opts_bucket = Some ''test'', opts_password = Some ''password'', opts_mode = None,
     opts_connect = False\<rparr>"

definition ex_plain :: sasl where
  "ex_plain user pass =
     [CHR 0x00] @ (case user of None \<Rightarrow> ''undefined'' | Some u \<Rightarrow> u) @
     [CHR 0x00] @ (case pass of None \<Rightarrow> ''undefined'' | Some p \<Rightarrow> p)"

definition ex_header :: "nat \<Rightarrow> header" where
  "ex_header op = createHeader\<lparr>magic := 0x81, opcode := op\<rparr>"

definition ex_mode :: mode where
  "ex_mode = \<lparr>backfill = Some (- 1), dump = False, vbuckets = None, takover = False,
     enableAcks = False, keysOnly = True, registred = False\<rparr>"


definition ex_delete_extras :: buffer where
  "ex_delete_extras = [0, 3, 0, 0, 0, 0, 0, 0]"

text \<open>
  A mode whose start position is too large for node-int64, and one whose start position
  is \<open>2 ^ 64\<close>; extras with the metadata length 0; a stand-in for \<^verbatim>\<open>_requestSASLAuth\<close> that
  puts the mechanisms it is given on the log.
\<close>

definition ex_mode_too_large :: mode where
  "ex_mode_too_large = \<lparr>backfill = Some 36893488147419103232, dump = False,
     vbuckets = None, takover = False, enableAcks = False, keysOnly = False,
     registred = False\<rparr>"

definition ex_mode_wrapped :: mode where
  "ex_mode_wrapped = \<lparr>backfill = Some 18446744073709551616, dump = False,
     vbuckets = None, takover = False, enableAcks = False, keysOnly = False,
     registred = False\<rparr>"

definition ex_zero_extras :: buffer where
  "ex_zero_extras = [0, 0, 0, 0, 0, 0, 0, 0, 0, 0, 0, 0, 0, 0, 0, 0]"

definition ex_record_mechs :: "string list \<Rightarrow> client \<Rightarrow> client" where
  "ex_record_mechs mechs c = conn_send createHeader (map Buffer_from mechs) c"

text \<open>
  The sample session: the server accepts the credentials (a packet with opcode 0x21 and
  an empty body), and the caller then asks for the mode.
\<close>

definition ex_ready :: client where
  "ex_ready = snd (onData ex_plain (ex_header 0x21) [] [] [] (Client ex_opts))"

definition ex_streaming :: client where
  "ex_streaming = snd (setMode ex_mode ex_ready)"

section \<open>Properties\<close>

subsection \<open>Auxiliary facts\<close>

lemma slice_take: "slice buf 0 n = take n buf"
  by (simp add: slice_def)

lemma slice_drop: "slice buf n (length buf) = drop n buf"
  by (simp add: slice_def)

lemma and_then_None: "and_then (None, c) f = f c"
  by (simp add: and_then_def)

lemma and_then_Some: "and_then (Some e, c) f = (Some e, c)"
  by (simp add: and_then_def)

lemma emit_data:
  "emit (Ev_data h extras key body) c = (None, log (Emit (Ev_data h extras key body)) c)"
  by (simp add: emit_def)

text \<open>The dispatch of \<^verbatim>\<open>_onData\<close>: the handler runs on the client that has emitted \<^verbatim>\<open>'data'\<close>.\<close>

lemma onData_dispatch:
  "onData response h extras key body c =
     (case handlers response (opcode h) of
        Some handler \<Rightarrow> handler h extras key body (log (Emit (Ev_data h extras key body)) c)
      | None \<Rightarrow> (None, log (Emit (Ev_data h extras key body)) c))"
  by (simp add: onData_def emit_data and_then_None)

text \<open>Extras that hold the whole layout are read without an exception.\<close>

lemma read_tap_extras_Some:
  assumes "5 \<le> length extras"
  shows "\<exists>ex. read_tap_extras extras = Some ex \<and> readUInt16BE extras 0 = Some (engine ex)"
  using assms by (simp add: read_tap_extras_def readUInt16BE_def readUInt8_def)

lemma read_mutation_extras_Some:
  assumes "16 \<le> length extras"
  shows "\<exists>ex. read_mutation_extras extras = Some ex \<and> readUInt16BE extras 0 = Some (engine ex)"
  using assms
  by (simp add: read_mutation_extras_def readUInt16BE_def readUInt8_def readUInt32BE_def)

lemma handleMutation_emits:
  assumes "read_mutation_extras extras = Some ex"
  shows "handleMutation h extras key body c =
     (None, log (Emit (Ev_mutation (take (engine ex) key)
        (toString_utf8 (drop (engine ex) key @ take (engine ex) body))
        (toString_utf8 (drop (engine ex) body))
        \<lparr>misc_header = h, misc_extras = ex\<rparr>)) c)"
  using assms
  by (simp add: handleMutation_def emit_def slice_take slice_drop slice_from_def Let_def)

lemma handleDelete_emits:
  assumes "read_tap_extras extras = Some ex"
  shows "handleDelete h extras key body c =
     (None, log (Emit (Ev_delete (take (engine ex) key)
        (toString_utf8 (drop (engine ex) key @ take (engine ex) body))
        \<lparr>misc_header = h, misc_extras = ex\<rparr>)) c)"
  using assms
  by (simp add: handleDelete_def emit_def slice_take slice_drop Let_def)

text \<open>
  Decoding as UTF-8 gives the empty string for the empty buffer only, and leaves a
  buffer of ASCII bytes as it is.
\<close>

lemma utf8_decode_Some_nonempty: "utf8_decode (Some st) bs \<noteq> []"
proof (induction bs arbitrary: st)
  case Nil
  show ?case by (simp add: replacement_def)
next
  case (Cons b bs)
  obtain n lo hi seen where st: "st = (n, lo, hi, seen)"
    by (cases st) auto
  show ?case
    unfolding st using Cons.IH by (simp add: replacement_def)
qed

lemma utf8_decode_None_empty: "utf8_decode None bs = [] \<longleftrightarrow> bs = []"
proof (cases bs)
  case Nil
  then show ?thesis by simp
next
  case (Cons b bs')
  then show ?thesis
    by (auto simp: replacement_def utf8_decode_Some_nonempty split: option.splits)
qed

lemma toString_utf8_empty: "toString_utf8 buf = [] \<longleftrightarrow> buf = []"
  by (simp add: toString_utf8_def utf8_decode_None_empty)

lemma utf8_decode_ascii:
  "list_all (\<lambda>b. unat b \<le> 0x7F) bs \<Longrightarrow> utf8_decode None bs = bs"
  by (induction bs) simp_all

text \<open>Splitting at the spaces: the parts hold no space, and joined by spaces they give the string back.\<close>

lemma split_space_nonempty: "split_space s \<noteq> []"
  by (induction s) simp_all

lemma join_space_Cons:
  "ms \<noteq> [] \<Longrightarrow> join_space (m # ms) = m @ CHR '' '' # join_space ms"
  by (cases ms) simp_all

lemma join_space_hd:
  "ms \<noteq> [] \<Longrightarrow> join_space ((ch # hd ms) # tl ms) = ch # join_space ms"
  by (cases ms; cases "tl ms") simp_all

lemma join_split_space: "join_space (split_space s) = s"
proof (induction s)
  case Nil
  show ?case by simp
next
  case (Cons ch cs)
  then show ?case
    by (simp add: join_space_Cons join_space_hd split_space_nonempty)
qed

lemma split_space_no_space: "list_all (\<lambda>m. CHR '' '' \<notin> set m) (split_space s)"
proof (induction s)
  case Nil
  show ?case by simp
next
  case (Cons ch cs)
  then show ?case
    using split_space_nonempty [of cs] by (cases "split_space cs") auto
qed

text \<open>
  The flag word of \<^verbatim>\<open>setMode\<close>, bit by bit, and its four bytes.
\<close>

lemma flags_bits:
  "bit (setMode_flags md) i \<longleftrightarrow>
     (i = 0 \<and> truthy_num (backfill md)) \<or> (i = 1 \<and> dump md) \<or>
     (i = 2 \<and> vbuckets md \<noteq> None) \<or> (i = 3 \<and> takover md) \<or>
     (i = 4 \<and> enableAcks md) \<or> (i = 5 \<and> keysOnly md) \<or> (i = 7 \<and> registred md)"
proof -
  have e: "setMode_flags md =
     (if truthy_num (backfill md) then 2 ^ 0 else 0) OR
     (if dump md then 2 ^ 1 else 0) OR
     (if vbuckets md \<noteq> None then 2 ^ 2 else 0) OR
     (if takover md then 2 ^ 3 else 0) OR
     (if enableAcks md then 2 ^ 4 else 0) OR
     (if keysOnly md then 2 ^ 5 else 0) OR
     (if registred md then 2 ^ 7 else 0)"
    by (simp add: setMode_flags_def)
  have c: "bit (if p then (2::32 word) ^ k else 0) i \<longleftrightarrow> p \<and> i = k \<and> k < 32" for p k
    by (auto simp add: bit_exp_iff)
  show ?thesis
    by (simp only: e bit_or_iff c) auto
qed

lemma flags_extras:
  "createUInt32BE (unat (setMode_flags md)) = Some [0, 0, 0, ucast (setMode_flags md)]"
  by (cases "truthy_num (backfill md)"; cases "dump md"; cases "vbuckets md = None";
      cases "takover md"; cases "enableAcks md"; cases "keysOnly md"; cases "registred md";
      simp add: setMode_flags_def createUInt32BE_def uint32be_def)

text \<open>
  The chunks of the body. The loop over the vbuckets goes through when every vbucket
  fits in two bytes, and throws at the first that does not; the chunks are built for
  the modes whose numbers fit and for no other, and put together they are the body the
  wire format describes.
\<close>

lemma push_vbuckets_fit:
  "list_all (\<lambda>v. v < 65536) vs \<Longrightarrow> push_vbuckets vs acc = Some (acc @ map uint16be vs)"
  by (induction vs arbitrary: acc) (simp_all add: createUInt16BE_def)

lemma push_vbuckets_unfit:
  "\<not> list_all (\<lambda>v. v < 65536) vs \<Longrightarrow> push_vbuckets vs acc = None"
  by (induction vs arbitrary: acc) (auto simp add: createUInt16BE_def)

lemma setMode_chunks_fit:
  assumes "mode_encodable md"
  shows "\<exists>chunks. setMode_chunks md = Some chunks \<and> concat chunks = mode_body md"
proof (cases "vbuckets md")
  case None
  with assms show ?thesis
    by (auto simp add: setMode_chunks_def mode_body_def mode_encodable_def Int64_buffer_def
        truthy_num_def split: option.splits)
next
  case (Some vs)
  with assms have "length vs < 65536" and "list_all (\<lambda>v. v < 65536) vs"
    by (simp_all add: mode_encodable_def)
  with Some assms show ?thesis
    by (auto simp add: setMode_chunks_def mode_body_def mode_encodable_def Int64_buffer_def
        truthy_num_def createUInt16BE_def push_vbuckets_fit split: option.splits)
qed

lemma setMode_chunks_unfit:
  assumes "\<not> mode_encodable md"
  shows "setMode_chunks md = None"
proof (cases "truthy_num (backfill md) \<and> Int64_buffer (the (backfill md)) = None")
  case True
  then show ?thesis
    by (simp add: setMode_chunks_def)
next
  case False
  then have b: "case backfill md of None \<Rightarrow> True | Some v \<Rightarrow> \<bar>v\<bar> \<le> 18446744073709551616"
    by (auto simp add: truthy_num_def Int64_buffer_def split: option.splits if_splits)
  with assms obtain vs where vs: "vbuckets md = Some vs"
    and bad: "\<not> (length vs < 65536 \<and> list_all (\<lambda>v. v < 65536) vs)"
    by (auto simp add: mode_encodable_def split: option.splits)
  show ?thesis
  proof (cases "length vs < 65536")
    case True
    with bad have "\<not> list_all (\<lambda>v. v < 65536) vs" by simp
    with vs True show ?thesis
      by (auto simp add: setMode_chunks_def createUInt16BE_def push_vbuckets_unfit
          split: Option.bind_splits)
  next
    case False
    with vs show ?thesis
      by (auto simp add: setMode_chunks_def createUInt16BE_def split: Option.bind_splits)
  qed
qed

text \<open>What \<^verbatim>\<open>setMode\<close> does on a client that is connected, and on one that is not.\<close>

lemma setMode_connected:
  assumes "connected c"
  shows "setMode md c =
     (if mode_encodable md
      then (None, c\<lparr>mode := Some md, trace := trace c @
             [Send (createHeader\<lparr>magic := 0x80, opcode := 0x40, extrasLength := 4,
                      keyLength := length (setMode_key (opts c)),
                      dataLength := 4 + length (setMode_key (opts c))
                                    + length (mode_body md)\<rparr>)
                [[0, 0, 0, ucast (setMode_flags md)], setMode_key (opts c), mode_body md]]\<rparr>)
      else (Some RangeError, c\<lparr>mode := Some md\<rparr>))"
proof (cases "mode_encodable md")
  case True
  from setMode_chunks_fit [OF this] obtain chunks
    where "setMode_chunks md = Some chunks" and "concat chunks = mode_body md"
    by blast
  with True assms show ?thesis
    by (simp add: setMode_def flags_extras conn_send_def log_def Let_def)
next
  case False
  with setMode_chunks_unfit [OF this] assms show ?thesis
    by (simp add: setMode_def flags_extras Let_def)
qed

lemma setMode_not_connected: "\<not> connected c \<Longrightarrow> setMode md c = (None, c)"
  by (simp add: setMode_def)

text \<open>
  The encoding of a start position: eight bytes, all of them zero for the multiples of
  \<open>2 ^ 64\<close> only.
\<close>

lemma dvd_step:
  fixes n :: int
  assumes "a dvd n" and "256 dvd n div a" and "0 < a"
  shows "a * 256 dvd n"
  using assms by (metis dvd_div_iff_mult less_irrefl mult.commute)

lemma int64be_zero:
  assumes "int64be n = [0, 0, 0, 0, 0, 0, 0, 0]"
  shows "18446744073709551616 dvd n"
proof -
  from assms have z: "(of_int (n div 256 ^ i) :: byte) = 0" if "i \<in> {0, 1, 2, 3, 4, 5, 6, 7}" for i
    using that by (auto simp add: int64be_def)
  have d: "256 dvd n div 256 ^ i" if "i \<in> {0, 1, 2, 3, 4, 5, 6, 7}" for i
    using z [OF that] by (simp add: word_of_int_eq_0_iff)
  have d0: "256 ^ 1 dvd n" using d [of 0] by simp
  have d1: "256 ^ 2 dvd n" using dvd_step [OF d0] d [of 1] by simp
  have d2: "256 ^ 3 dvd n" using dvd_step [OF d1] d [of 2] by simp
  have d3: "256 ^ 4 dvd n" using dvd_step [OF d2] d [of 3] by simp
  have d4: "256 ^ 5 dvd n" using dvd_step [OF d3] d [of 4] by simp
  have d5: "256 ^ 6 dvd n" using dvd_step [OF d4] d [of 5] by simp
  have d6: "256 ^ 7 dvd n" using dvd_step [OF d5] d [of 6] by simp
  have d7: "256 ^ 8 dvd n" using dvd_step [OF d6] d [of 7] by simp
  then show ?thesis by simp
qed

lemma int64be_nonzero:
  assumes "n \<noteq> 0" and "\<bar>n\<bar> < 18446744073709551616"
  shows "int64be n \<noteq> [0, 0, 0, 0, 0, 0, 0, 0]"
proof
  assume "int64be n = [0, 0, 0, 0, 0, 0, 0, 0]"
  then have "18446744073709551616 dvd n" by (rule int64be_zero)
  then obtain k where "n = 18446744073709551616 * k" by (auto simp add: dvd_def)
  with assms show False by (cases "k = 0") auto
qed

lemma int64be_length: "length (int64be n) = 8"
  by (simp add: int64be_def)

lemma to_integer_bounds:
  assumes "1 \<le> \<bar>v\<bar>" and "\<bar>v\<bar> < 18446744073709551616"
  shows "to_integer v \<noteq> 0 \<and> \<bar>to_integer v\<bar> < 18446744073709551616"
proof (cases "v < 0")
  case True
  with assms have "1 \<le> - v" and "- v < 18446744073709551616" by simp_all
  then have f: "1 \<le> \<lfloor>- v\<rfloor>" "\<lfloor>- v\<rfloor> < 18446744073709551616"
    by (simp_all only: le_floor_iff floor_less_iff of_int_1 of_int_numeral)
  from True have "to_integer v = - \<lfloor>- v\<rfloor>" by (simp add: to_integer_def)
  with f show ?thesis by arith
next
  case False
  with assms have "1 \<le> v" and "v < 18446744073709551616" by simp_all
  then have f: "1 \<le> \<lfloor>v\<rfloor>" "\<lfloor>v\<rfloor> < 18446744073709551616"
    by (simp_all only: le_floor_iff floor_less_iff of_int_1 of_int_numeral)
  from False have "to_integer v = \<lfloor>v\<rfloor>" by (simp add: to_integer_def)
  with f show ?thesis by arith
qed

lemma mode_body_backfill:
  assumes "truthy_num (backfill md)"
  shows "\<exists>v. backfill md = Some v \<and> v \<noteq> 0 \<and>
           take 8 (mode_body md) = int64be (to_integer v)"
  using assms
  by (auto simp add: truthy_num_def mode_body_def int64be_length split: option.splits)

text \<open>The sample modes and the sample session, evaluated.\<close>

lemma Int64_minus_one:
  "Int64_buffer (- 1) = Some [0xFF, 0xFF, 0xFF, 0xFF, 0xFF, 0xFF, 0xFF, 0xFF]"
  by (simp add: Int64_buffer_def int64be_def to_integer_def)

lemma ex_mode_chunks:
  "setMode_chunks ex_mode = Some [[0xFF, 0xFF, 0xFF, 0xFF, 0xFF, 0xFF, 0xFF, 0xFF]]"
  by (simp add: setMode_chunks_def ex_mode_def truthy_num_def Int64_minus_one)

lemma ex_mode_encodable: "mode_encodable ex_mode"
  by (simp add: mode_encodable_def ex_mode_def)

lemma ex_mode_body: "mode_body ex_mode = [0xFF, 0xFF, 0xFF, 0xFF, 0xFF, 0xFF, 0xFF, 0xFF]"
  by (simp add: mode_body_def ex_mode_def truthy_num_def int64be_def to_integer_def)

lemma ex_mode_flags: "setMode_flags ex_mode = 0x21"
  by (simp add: setMode_flags_def ex_mode_def truthy_num_def)

lemma ex_ready_eq:
  "ex_ready = (Client ex_opts)\<lparr>connected := True, trace :=
        [Emit (Ev_data (ex_header 0x21) [] [] []), Emit Ev_connect]\<rparr>"
  by (simp add: ex_ready_def onData_dispatch handlers_def handleSASLAuth_def toString_utf8_def
      emit_def and_then_def log_def Let_def ex_header_def createHeader_def ex_opts_def Client_def)

lemma ex_streaming_eq:
  "ex_streaming = (Client ex_opts)\<lparr>connected := True, mode := Some ex_mode, trace :=
        [Emit (Ev_data (ex_header 0x21) [] [] []), Emit Ev_connect,
         Send (createHeader\<lparr>magic := 0x80, opcode := 0x40, extrasLength := 4,
                 keyLength := 5, dataLength := 17\<rparr>)
           [[0, 0, 0, 0x21], Buffer_from ''test1'',
            [0xFF, 0xFF, 0xFF, 0xFF, 0xFF, 0xFF, 0xFF, 0xFF]]]\<rparr>"
  by (simp add: ex_streaming_def ex_ready_eq setMode_connected Client_def ex_mode_encodable
      ex_mode_body ex_mode_flags ex_opts_def setMode_key_def Buffer_from_def)

text \<open>
  No handler and no request takes anything back from the log: the log after a step
  is the log before it, followed by what the step did.
\<close>

lemma emit_grows: "\<exists>rest. trace (snd (emit ev c)) = trace c @ rest"
  by (cases ev) (simp_all add: emit_def log_def)

lemma and_then_grows:
  assumes "\<exists>rest. trace (snd r) = trace c @ rest"
    and "\<And>c'. \<exists>rest. trace (snd (f c')) = trace c' @ rest"
  shows "\<exists>rest. trace (snd (and_then r f)) = trace c @ rest"
proof (cases "fst r")
  case None
  from assms(1) obtain r1 where r1: "trace (snd r) = trace c @ r1" by blast
  from assms(2) obtain r2 where "trace (snd (f (snd r))) = trace (snd r) @ r2" by blast
  with r1 None show ?thesis by (simp add: and_then_def)
next
  case (Some e)
  with assms(1) show ?thesis by (simp add: and_then_def)
qed

lemma setMode_grows: "\<exists>rest. trace (snd (setMode md c)) = trace c @ rest"
proof (cases "connected c")
  case True
  then show ?thesis
    by (simp add: setMode_connected)
next
  case False
  then show ?thesis
    by (simp add: setMode_not_connected)
qed

lemma handleSASLAuth_grows:
  "\<exists>rest. trace (snd (handleSASLAuth h extras key body c)) = trace c @ rest"
proof (cases "toString_utf8 body = []")
  case True
  have "\<exists>rest. trace (snd (case opts_mode (opts c) of
            Some md \<Rightarrow> setMode md (c\<lparr>connected := True\<rparr>)
          | None \<Rightarrow> (None, c\<lparr>connected := True\<rparr>))) = trace c @ rest"
    using setMode_grows [of _ "c\<lparr>connected := True\<rparr>"] by (simp split: option.splits)
  from and_then_grows [OF this emit_grows] True show ?thesis
    by (simp add: handleSASLAuth_def Let_def)
next
  case False
  have "\<exists>rest. trace (snd (onError (Error (toString_utf8 body)) c)) = trace c @ rest"
    using emit_grows [of _ "c\<lparr>connected := False\<rparr>"] by (simp add: onError_def)
  from and_then_grows [OF this, of "\<lambda>c'. (None, conn_close c')"] False show ?thesis
    by (simp add: handleSASLAuth_def Let_def conn_close_def log_def)
qed

lemma handleSASLMechs_grows:
  "\<exists>rest. trace (snd (handleSASLMechs (requestSASLAuth response) h extras key body c)) =
     trace c @ rest"
  by (simp add: handleSASLMechs_def requestSASLAuth_def conn_send_def log_def Let_def)

lemma handleMutation_grows:
  "\<exists>rest. trace (snd (handleMutation h extras key body c)) = trace c @ rest"
  by (cases "read_mutation_extras extras")
     (simp_all add: handleMutation_def emit_def log_def Let_def)

lemma handleDelete_grows:
  "\<exists>rest. trace (snd (handleDelete h extras key body c)) = trace c @ rest"
  by (cases "read_tap_extras extras")
     (simp_all add: handleDelete_def emit_def log_def Let_def)

lemma handleFlush_grows:
  "\<exists>rest. trace (snd (handleFlush h extras key body c)) = trace c @ rest"
  by (cases "read_tap_extras extras")
     (simp_all add: handleFlush_def emit_def log_def)

lemma handleOpaque_grows:
  "\<exists>rest. trace (snd (handleOpaque h extras key body c)) = trace c @ rest"
  by (cases "read_tap_extras extras"; cases "readUInt32BE body 0")
     (simp_all add: handleOpaque_def emit_def log_def)

lemma handlers_grow:
  assumes "handlers response op = Some handler"
  shows "\<exists>rest. trace (snd (handler h extras key body c)) = trace c @ rest"
  using assms handleSASLAuth_grows handleSASLMechs_grows handleMutation_grows
    handleDelete_grows handleFlush_grows handleOpaque_grows
  by (auto simp add: handlers_def split: if_splits)

subsection \<open>Decoding a mutation\<close>



text \<open>
  Claim C10, as the client has it. For a mutation or a delete packet whose metadata
  length \<open>m\<close> is at most the length of the key region and at most the length of the body
  region, the bytes the key is reassembled from (the key region without its first \<open>m\<close>
  bytes, followed by the first \<open>m\<close> bytes of the body region) are exactly as many as the
  bytes of the key region. The key handed to the subscribers is the UTF-8 decoding of
  those bytes: it has the byte length of the key region whenever the decoding replaces
  nothing, as for ASCII bytes.
\<close>

theorem key_length_preserved:
  assumes "readUInt16BE extras 0 = Some m" and "m \<le> length key" and "m \<le> length body"
  shows "length (drop m key @ take m body) = length key \<and>
     (16 \<le> length extras \<longrightarrow>
        (\<exists>ex. handleMutation h extras key body c =
           (None, log (Emit (Ev_mutation (take m key)
              (toString_utf8 (drop m key @ take m body)) (toString_utf8 (drop m body))
              \<lparr>misc_header = h, misc_extras = ex\<rparr>)) c))) \<and>
     (5 \<le> length extras \<longrightarrow>
        (\<exists>ex. handleDelete h extras key body c =
           (None, log (Emit (Ev_delete (take m key)
              (toString_utf8 (drop m key @ take m body))
              \<lparr>misc_header = h, misc_extras = ex\<rparr>)) c))) \<and>
     (utf8_decode None (drop m key @ take m body) = drop m key @ take m body \<longrightarrow>
        length (toString_utf8 (drop m key @ take m body)) = length key) \<and>
     (list_all (\<lambda>b. unat b \<le> 0x7F) (drop m key @ take m body) \<longrightarrow>
        length (toString_utf8 (drop m key @ take m body)) = length key)"
proof -
  from assms(2,3) have l: "length (drop m key @ take m body) = length key"
    by simp
  have mu: "\<exists>ex. handleMutation h extras key body c =
           (None, log (Emit (Ev_mutation (take m key)
              (toString_utf8 (drop m key @ take m body)) (toString_utf8 (drop m body))
              \<lparr>misc_header = h, misc_extras = ex\<rparr>)) c)" if "16 \<le> length extras"
  proof -
    from read_mutation_extras_Some [OF that] assms(1)
    obtain ex where "read_mutation_extras extras = Some ex" "engine ex = m"
      by auto
    with handleMutation_emits [of extras ex h key body c] show ?thesis
      by auto
  qed
  have de: "\<exists>ex. handleDelete h extras key body c =
           (None, log (Emit (Ev_delete (take m key)
              (toString_utf8 (drop m key @ take m body))
              \<lparr>misc_header = h, misc_extras = ex\<rparr>)) c)" if "5 \<le> length extras"
  proof -
    from read_tap_extras_Some [OF that] assms(1)
    obtain ex where "read_tap_extras extras = Some ex" "engine ex = m"
      by auto
    with handleDelete_emits [of extras ex h key body c] show ?thesis
      by auto
  qed
  have wf: "length (toString_utf8 (drop m key @ take m body)) = length key"
    if "utf8_decode None (drop m key @ take m body) = drop m key @ take m body"
    using that l by (simp add: toString_utf8_def)
  have as: "length (toString_utf8 (drop m key @ take m body)) = length key"
    if "list_all (\<lambda>b. unat b \<le> 0x7F) (drop m key @ take m body)"
    using utf8_decode_ascii [OF that] wf by simp
  from l mu de wf as show ?thesis by blast
qed

theorem key_length_preserved_witness:
  "readUInt16BE ex_delete_extras 0 = Some 3 \<and>
   3 \<le> length ([0x01, 0x02, 0x03] @ Buffer_from ''foo'') \<and> 3 \<le> length (Buffer_from ''bar'') \<and>
   length (drop 3 ([0x01, 0x02, 0x03] @ Buffer_from ''foo'') @ take 3 (Buffer_from ''bar'')) =
     length ([0x01, 0x02, 0x03] @ Buffer_from ''foo'') \<and>
   handleDelete (ex_header 0x42) ex_delete_extras ([0x01, 0x02, 0x03] @ Buffer_from ''foo'')
       (Buffer_from ''bar'') (Client ex_opts) =
     (None, log (Emit (Ev_delete [0x01, 0x02, 0x03] ''foobar''
        \<lparr>misc_header = ex_header 0x42,
         misc_extras = \<lparr>engine = 3, flags = 0, ttl = 0, reserved = [0, 0, 0]\<rparr>\<rparr>))
        (Client ex_opts)) \<and>
   length ''foobar'' = length ([0x01, 0x02, 0x03] @ Buffer_from ''foo'')"
  using key_length_preserved [of ex_delete_extras 3 "[0x01, 0x02, 0x03] @ Buffer_from ''foo''"
      "Buffer_from ''bar''" "ex_header 0x42" "Client ex_opts"]
  by (simp add: ex_delete_extras_def readUInt16BE_def readUInt8_def read_tap_extras_def
      handleDelete_def emit_def slice_def Buffer_from_def toString_utf8_def Let_def
      char_of_def bit_Suc_0_iff)

text \<open>
  A key region of the single byte FF, with the metadata length 0 and an empty body: the
  byte is no UTF-8, the key of the event is the character U+FFFD, and its three bytes
  are not as many as the one byte of the key region.
\<close>

theorem key_length_changed:
  "readUInt16BE ex_zero_extras 0 = Some 0 \<and>
   0 \<le> length [0xFF :: byte] \<and> 0 \<le> length ([] :: buffer) \<and>
   handleMutation (ex_header 0x41) ex_zero_extras [0xFF] [] (Client ex_opts) =
     (None, log (Emit (Ev_mutation [] [CHR 0xEF, CHR 0xBF, CHR 0xBD] []
        \<lparr>misc_header = ex_header 0x41,
         misc_extras = \<lparr>engine = 0, flags = 0, ttl = 0, reserved = [0, 0, 0],
                        itemFlags = 0, itemExpiry = 0\<rparr>\<rparr>))
        (Client ex_opts)) \<and>
   handleDelete (ex_header 0x42) ex_zero_extras [0xFF] [] (Client ex_opts) =
     (None, log (Emit (Ev_delete [] [CHR 0xEF, CHR 0xBF, CHR 0xBD]
        \<lparr>misc_header = ex_header 0x42,
         misc_extras = \<lparr>engine = 0, flags = 0, ttl = 0, reserved = [0, 0, 0]\<rparr>\<rparr>))
        (Client ex_opts)) \<and>
   length [CHR 0xEF, CHR 0xBF, CHR 0xBD] \<noteq> length [0xFF :: byte]"
  by (simp add: ex_zero_extras_def readUInt16BE_def readUInt8_def readUInt32BE_def
      read_tap_extras_def read_mutation_extras_def handleDelete_def handleMutation_def
      emit_def slice_def slice_from_def toString_utf8_def utf8_lead_def replacement_def
      Let_def char_of_def bit_Suc_0_iff)

subsection \<open>The handshake\<close>

text \<open>
  Claim C2. On a packet with opcode 0x20 the handler decodes the extras as ASCII, splits
  the string at the spaces (the parts hold no space and, joined by spaces, give the
  string back) and calls \<^verbatim>\<open>_requestSASLAuth\<close> with that list of mechanism names and
  nothing else. With the client's own \<^verbatim>\<open>_requestSASLAuth\<close> the session sends, after the raw
  \<^verbatim>\<open>'data'\<close> event, one authenticate request: opcode 0x21, the key PLAIN, the body the
  response of the credential collaborator for the bucket and the password, the key
  length of the header the byte length of the key and its total body length the sum of
  the byte lengths of the key and the body.
\<close>

theorem sasl_mechs_reply:
  assumes "opcode h = 0x20"
  shows "handleSASLMechs requestAuth h extras key body c =
       (None, requestAuth (split_space (toString_ascii extras)) c) \<and>
     toString_ascii extras = map (\<lambda>x. char_of (unat x mod 128)) extras \<and>
     join_space (split_space (toString_ascii extras)) = toString_ascii extras \<and>
     list_all (\<lambda>m. CHR '' '' \<notin> set m) (split_space (toString_ascii extras)) \<and>
     handlers response (opcode h) = Some (handleSASLMechs (requestSASLAuth response)) \<and>
     onData response h extras key body c =
       (None, c\<lparr>trace := trace c @
          [Emit (Ev_data h extras key body),
           Send (createHeader\<lparr>magic := 0x80, opcode := 0x21,
                   keyLength := length (Buffer_from ''PLAIN''),
                   dataLength := length (Buffer_from ''PLAIN'') +
                     length (Buffer_from (response (opts_bucket (opts c))
                                            (opts_password (opts c))))\<rparr>)
             [Buffer_from ''PLAIN'',
              Buffer_from (response (opts_bucket (opts c)) (opts_password (opts c)))]]\<rparr>)"
proof -
  have a: "handleSASLMechs requestAuth h extras key body c =
       (None, requestAuth (split_space (toString_ascii extras)) c)"
    by (simp add: handleSASLMechs_def Let_def)
  have b: "handlers response (opcode h) = Some (handleSASLMechs (requestSASLAuth response))"
    using assms by (simp add: handlers_def)
  have d: "onData response h extras key body c =
       (None, c\<lparr>trace := trace c @
          [Emit (Ev_data h extras key body),
           Send (createHeader\<lparr>magic := 0x80, opcode := 0x21,
                   keyLength := length (Buffer_from ''PLAIN''),
                   dataLength := length (Buffer_from ''PLAIN'') +
                     length (Buffer_from (response (opts_bucket (opts c))
                                            (opts_password (opts c))))\<rparr>)
             [Buffer_from ''PLAIN'',
              Buffer_from (response (opts_bucket (opts c)) (opts_password (opts c)))]]\<rparr>)"
    by (simp add: onData_dispatch b handleSASLMechs_def requestSASLAuth_def
        conn_send_def log_def Let_def)
  from a b d show ?thesis
    by (simp add: join_split_space split_space_no_space) (simp add: toString_ascii_def)
qed

theorem sasl_mechs_reply_witness:
  "opcode (ex_header 0x20) = 0x20 \<and>
   handleSASLMechs ex_record_mechs (ex_header 0x20) (Buffer_from ''PLAIN CRAM-MD5'') [] []
       (Client ex_opts) =
     (None, (Client ex_opts)\<lparr>trace :=
        [Send createHeader [Buffer_from ''PLAIN'', Buffer_from ''CRAM-MD5'']]\<rparr>) \<and>
   onData ex_plain (ex_header 0x20) (Buffer_from ''PLAIN CRAM-MD5'') [] [] (Client ex_opts) =
     (None, (Client ex_opts)\<lparr>trace :=
        [Emit (Ev_data (ex_header 0x20) (Buffer_from ''PLAIN CRAM-MD5'') [] []),
         Send (createHeader\<lparr>magic := 0x80, opcode := 0x21, keyLength := 5, dataLength := 19\<rparr>)
           [Buffer_from ''PLAIN'',
            [0x00] @ Buffer_from ''test'' @ [0x00] @ Buffer_from ''password'']]\<rparr>)"
  using sasl_mechs_reply [of "ex_header 0x20" ex_record_mechs "Buffer_from ''PLAIN CRAM-MD5''"
      "[]" "[]" "Client ex_opts" ex_plain]
  by (simp add: ex_header_def ex_plain_def ex_opts_def ex_record_mechs_def conn_send_def
      log_def Buffer_from_def toString_ascii_def Client_def createHeader_def char_of_def
      bit_Suc_0_iff)

text \<open>
  A packet with opcode 0x21 and a body that is not empty: the session clears its
  connected flag and raises an error that carries the body decoded as UTF-8, and it
  does not emit \<^verbatim>\<open>'connect'\<close>. When a subscriber listens to \<^verbatim>\<open>'error'\<close>, the error is
  emitted to it and the transport is closed after that; when nobody does, the emitter
  throws the error and the statement that closes the transport is not reached.
\<close>

lemma auth_failure_outcome:
  assumes "opcode h = 0x21" and "body \<noteq> []"
  shows "toString_utf8 body \<noteq> [] \<and>
     onData response h extras key body c =
       (if errorListener c
        then (None, c\<lparr>connected := False, trace := trace c @
                [Emit (Ev_data h extras key body),
                 Emit (Ev_error (Error (toString_utf8 body))), ConnClose]\<rparr>)
        else (Some (Error (toString_utf8 body)),
              c\<lparr>connected := False, trace := trace c @ [Emit (Ev_data h extras key body)]\<rparr>))"
  using assms
  by (simp add: toString_utf8_empty onData_dispatch handlers_def handleSASLAuth_def onError_def
      emit_def and_then_def conn_close_def log_def Let_def)

lemma auth_failure_observed:
  "onData ex_plain (ex_header 0x21) [] [] (Buffer_from ''Auth failure'')
       (on_error (Client ex_opts)) =
     (None, (on_error (Client ex_opts))\<lparr>trace :=
        [Emit (Ev_data (ex_header 0x21) [] [] (Buffer_from ''Auth failure'')),
         Emit (Ev_error (Error ''Auth failure'')), ConnClose]\<rparr>)"
  using auth_failure_outcome [of "ex_header 0x21" "Buffer_from ''Auth failure''" ex_plain
      "[]" "[]" "on_error (Client ex_opts)"]
  by (simp add: ex_header_def Buffer_from_def toString_utf8_def on_error_def
      Client_def createHeader_def char_of_def bit_Suc_0_iff)

text \<open>
  Claim C3. A packet with opcode 0x21 and a non-empty body is to raise the
  authentication error, close the transport and emit no \<^verbatim>\<open>'connect'\<close>. The client of the
  README has no listener for \<^verbatim>\<open>'error'\<close>: on the answer \<^verbatim>\<open>Auth failure\<close> the error is
  thrown out of the data handler, and the transport is not closed.
\<close>

theorem auth_failure_unobserved:
  "ConnClose \<notin> set (trace (snd (onData ex_plain (ex_header 0x21) [] []
       (Buffer_from ''Auth failure'') (Client ex_opts)))) \<and>
   onData ex_plain (ex_header 0x21) [] [] (Buffer_from ''Auth failure'') (Client ex_opts) =
     (Some (Error ''Auth failure''),
      (Client ex_opts)\<lparr>trace :=
         [Emit (Ev_data (ex_header 0x21) [] [] (Buffer_from ''Auth failure''))]\<rparr>)"
  by (simp add: onData_dispatch handlers_def handleSASLAuth_def onError_def
      emit_def and_then_def log_def Let_def
      ex_header_def Buffer_from_def toString_utf8_def
      Client_def createHeader_def char_of_def bit_Suc_0_iff)

text \<open>
  Claim C4, as the client has it. On a packet with opcode 0x21 and an empty body the
  session sets its connected flag. With no mode among the options it then emits
  \<^verbatim>\<open>'connect'\<close> and sends nothing. With a mode among the options whose numbers fit their
  fields on the wire, it sends the request with opcode 0x40 at once, with the flag word
  and the body of that mode, and emits \<^verbatim>\<open>'connect'\<close> after it. With a mode whose numbers
  do not fit, the encoding throws a \<^verbatim>\<open>RangeError\<close>: the mode is recorded, nothing is sent
  and \<^verbatim>\<open>'connect'\<close> is not emitted.
\<close>

theorem auth_success:
  assumes "opcode h = 0x21"
  shows "onData response h extras key [] c =
     (case opts_mode (opts c) of
        None \<Rightarrow>
          (None, c\<lparr>connected := True, trace := trace c @
             [Emit (Ev_data h extras key []), Emit Ev_connect]\<rparr>)
      | Some md \<Rightarrow>
          (if mode_encodable md
           then (None, c\<lparr>connected := True, mode := Some md, trace := trace c @
                  [Emit (Ev_data h extras key []),
                   Send (createHeader\<lparr>magic := 0x80, opcode := 0x40, extrasLength := 4,
                      keyLength := length (setMode_key (opts c)),
                      dataLength := 4 + length (setMode_key (opts c))
                                    + length (mode_body md)\<rparr>)
                     [[0, 0, 0, ucast (setMode_flags md)], setMode_key (opts c),
                      mode_body md],
                   Emit Ev_connect]\<rparr>)
           else (Some RangeError, c\<lparr>connected := True, mode := Some md,
                  trace := trace c @ [Emit (Ev_data h extras key [])]\<rparr>)))"
  using assms
  by (simp add: onData_dispatch handlers_def handleSASLAuth_def toString_utf8_def
      setMode_connected emit_def and_then_def log_def Let_def split: option.splits)

theorem auth_success_witness:
  "opcode (ex_header 0x21) = 0x21 \<and>
   onData ex_plain (ex_header 0x21) [] [] [] (Client ex_opts) =
     (None, (Client ex_opts)\<lparr>connected := True, trace :=
        [Emit (Ev_data (ex_header 0x21) [] [] []), Emit Ev_connect]\<rparr>) \<and>
   mode_encodable ex_mode \<and>
   onData ex_plain (ex_header 0x21) [] [] [] (Client (ex_opts\<lparr>opts_mode := Some ex_mode\<rparr>)) =
     (None, (Client (ex_opts\<lparr>opts_mode := Some ex_mode\<rparr>))\<lparr>connected := True,
        mode := Some ex_mode, trace :=
        [Emit (Ev_data (ex_header 0x21) [] [] []),
         Send (createHeader\<lparr>magic := 0x80, opcode := 0x40, extrasLength := 4,
                 keyLength := 5, dataLength := 17\<rparr>)
           [[0, 0, 0, 0x21], Buffer_from ''test1'',
            [0xFF, 0xFF, 0xFF, 0xFF, 0xFF, 0xFF, 0xFF, 0xFF]],
         Emit Ev_connect]\<rparr>)"
  using auth_success [of "ex_header 0x21" ex_plain "[]" "[]" "Client ex_opts"]
    auth_success [of "ex_header 0x21" ex_plain "[]" "[]"
      "Client (ex_opts\<lparr>opts_mode := Some ex_mode\<rparr>)"]
  by (simp add: ex_header_def ex_opts_def Client_def createHeader_def ex_mode_encodable
      ex_mode_body ex_mode_flags setMode_key_def Buffer_from_def)

text \<open>
  A mode is among the options, with the start position \<open>2 ^ 65\<close>: node-int64 throws, no
  request is sent and \<^verbatim>\<open>'connect'\<close> is not emitted.
\<close>

theorem auth_success_no_request:
  "opts_mode (opts (Client (ex_opts\<lparr>opts_mode := Some ex_mode_too_large\<rparr>))) =
     Some ex_mode_too_large \<and>
   onData ex_plain (ex_header 0x21) [] [] []
       (Client (ex_opts\<lparr>opts_mode := Some ex_mode_too_large\<rparr>)) =
     (Some RangeError,
      (Client (ex_opts\<lparr>opts_mode := Some ex_mode_too_large\<rparr>))\<lparr>connected := True,
        mode := Some ex_mode_too_large,
        trace := [Emit (Ev_data (ex_header 0x21) [] [] [])]\<rparr>)"
  by (simp add: onData_dispatch handlers_def handleSASLAuth_def toString_utf8_def
      setMode_def flags_extras setMode_chunks_def Int64_buffer_def truthy_num_def
      ex_mode_too_large_def emit_def and_then_def log_def Let_def ex_header_def
      createHeader_def ex_opts_def Client_def)

subsection \<open>The mode request\<close>

text \<open>
  Claim C5, as the client has it. \<^verbatim>\<open>setMode\<close> is guarded by the connected flag alone.
  While the flag is clear (before the authentication has succeeded, after an error, a
  close or an end) a call sends nothing and changes nothing. While the flag is set, in
  the state Ready and in the state Streaming alike, a call records the mode and, for
  every mode whose numbers fit their fields on the wire, sends the request with opcode
  0x40, with the flag word and the body of that mode; for a mode whose numbers do not
  fit, the encoding throws a \<^verbatim>\<open>RangeError\<close> after the mode is recorded.
\<close>

theorem setMode_guard:
  "setMode md c =
     (if session_state c = NotConnected then (None, c)
      else if mode_encodable md
      then (None, c\<lparr>mode := Some md, trace := trace c @
             [Send (createHeader\<lparr>magic := 0x80, opcode := 0x40, extrasLength := 4,
                      keyLength := length (setMode_key (opts c)),
                      dataLength := 4 + length (setMode_key (opts c))
                                    + length (mode_body md)\<rparr>)
                [[0, 0, 0, ucast (setMode_flags md)], setMode_key (opts c), mode_body md]]\<rparr>)
      else (Some RangeError, c\<lparr>mode := Some md\<rparr>))"
proof (cases "connected c")
  case True
  then show ?thesis
    by (simp add: setMode_connected session_state_def)
next
  case False
  then show ?thesis
    by (simp add: setMode_not_connected session_state_def)
qed

theorem setMode_guard_witness:
  "session_state (Client ex_opts) = NotConnected \<and>
   setMode ex_mode (Client ex_opts) = (None, Client ex_opts) \<and>
   session_state ex_ready = Ready \<and> mode_encodable ex_mode \<and>
   setMode ex_mode ex_ready = (None, ex_streaming) \<and>
   session_state ex_streaming = Streaming \<and>
   setMode ex_mode ex_streaming =
     (None, ex_streaming\<lparr>trace := trace ex_streaming @
        [Send (createHeader\<lparr>magic := 0x80, opcode := 0x40, extrasLength := 4,
                 keyLength := 5, dataLength := 17\<rparr>)
           [[0, 0, 0, 0x21], Buffer_from ''test1'',
            [0xFF, 0xFF, 0xFF, 0xFF, 0xFF, 0xFF, 0xFF, 0xFF]]]\<rparr>)"
  using setMode_guard [of ex_mode "Client ex_opts"] setMode_guard [of ex_mode ex_ready]
    setMode_guard [of ex_mode ex_streaming]
  by (simp add: session_state_def ex_streaming_eq ex_mode_encodable ex_mode_body ex_mode_flags)
     (simp add: ex_ready_eq Client_def ex_opts_def setMode_key_def Buffer_from_def)

text \<open>
  A second call of \<^verbatim>\<open>setMode\<close>, on the session that is streaming already, sends a
  second request.
\<close>

theorem setMode_while_streaming:
  "session_state ex_ready = Ready \<and> ex_streaming = snd (setMode ex_mode ex_ready) \<and>
   session_state ex_streaming = Streaming \<and>
   setMode ex_mode ex_streaming \<noteq> (None, ex_streaming) \<and>
   trace (snd (setMode ex_mode ex_streaming)) = trace ex_streaming @
     [Send (createHeader\<lparr>magic := 0x80, opcode := 0x40, extrasLength := 4,
              keyLength := 5, dataLength := 17\<rparr>)
        [[0, 0, 0, 0x21], Buffer_from ''test1'',
         [0xFF, 0xFF, 0xFF, 0xFF, 0xFF, 0xFF, 0xFF, 0xFF]]]"
proof -
  have c: "connected ex_streaming"
    by (simp add: ex_streaming_eq)
  have r: "session_state ex_ready = Ready"
    by (simp add: session_state_def ex_ready_eq Client_def)
  have s: "session_state ex_streaming = Streaming"
    by (simp add: session_state_def ex_streaming_eq)
  have t: "trace (snd (setMode ex_mode ex_streaming)) = trace ex_streaming @
     [Send (createHeader\<lparr>magic := 0x80, opcode := 0x40, extrasLength := 4,
              keyLength := 5, dataLength := 17\<rparr>)
        [[0, 0, 0, 0x21], Buffer_from ''test1'',
         [0xFF, 0xFF, 0xFF, 0xFF, 0xFF, 0xFF, 0xFF, 0xFF]]]"
    by (simp add: setMode_connected [OF c] ex_mode_encodable ex_mode_body ex_mode_flags)
       (simp add: ex_streaming_eq Client_def ex_opts_def setMode_key_def Buffer_from_def)
  from t have "setMode ex_mode ex_streaming \<noteq> (None, ex_streaming)"
    by auto
  with r s t show ?thesis
    by (simp add: ex_streaming_def)
qed

text \<open>
  Claim C6. On a connected client, \<^verbatim>\<open>setMode\<close> with the mode \<^verbatim>\<open>{backfill: -1, keysOnly: true}\<close>
  sends one request with opcode 0x40 whose extras are the 32-bit flag word with the bits
  0 and 5 set and no other, and whose body is the eight bytes FF, the big-endian two's
  complement of -1.
\<close>

theorem mode_request_encoding:
  assumes "connected c"
  shows "(\<forall>i. bit (setMode_flags ex_mode) i \<longleftrightarrow> i = 0 \<or> i = 5) \<and>
     createUInt32BE (unat (setMode_flags ex_mode)) = Some [0, 0, 0, 0x21] \<and>
     Int64_buffer (- 1) = Some (replicate 8 0xFF) \<and>
     setMode ex_mode c =
       (None, c\<lparr>mode := Some ex_mode, trace := trace c @
          [Send (createHeader\<lparr>magic := 0x80, opcode := 0x40, extrasLength := 4,
                   keyLength := length (setMode_key (opts c)),
                   dataLength := 4 + length (setMode_key (opts c))
                                 + 8\<rparr>)
             [[0, 0, 0, 0x21],
              setMode_key (opts c),
              replicate 8 0xFF]]\<rparr>)"
proof -
  have b: "\<forall>i. bit (setMode_flags ex_mode) i \<longleftrightarrow> i = 0 \<or> i = 5"
    by (simp add: flags_bits) (simp add: ex_mode_def truthy_num_def)
  have r: "replicate 8 (0xFF::byte) = [0xFF, 0xFF, 0xFF, 0xFF, 0xFF, 0xFF, 0xFF, 0xFF]"
    by (simp add: numeral_eq_Suc)
  have e: "createUInt32BE (unat (setMode_flags ex_mode)) = Some [0, 0, 0, 0x21]"
    by (simp add: ex_mode_flags createUInt32BE_def uint32be_def)
  have s: "setMode ex_mode c =
       (None, c\<lparr>mode := Some ex_mode, trace := trace c @
          [Send (createHeader\<lparr>magic := 0x80, opcode := 0x40, extrasLength := 4,
                   keyLength := length (setMode_key (opts c)),
                   dataLength := 4 + length (setMode_key (opts c))
                                 + 8\<rparr>)
             [[0, 0, 0, 0x21],
              setMode_key (opts c),
              replicate 8 0xFF]]\<rparr>)"
    using assms
    by (simp add: setMode_def e ex_mode_chunks conn_send_def log_def Let_def r)
  from b e s show ?thesis
    by (simp add: Int64_minus_one r)
qed

theorem mode_request_encoding_witness:
  "connected ex_ready \<and>
   setMode ex_mode ex_ready =
     (None, ex_ready\<lparr>mode := Some ex_mode, trace := trace ex_ready @
        [Send (createHeader\<lparr>magic := 0x80, opcode := 0x40, extrasLength := 4,
                 keyLength := 5, dataLength := 17\<rparr>)
           [[0, 0, 0, 0x21], Buffer_from ''test1'',
            [0xFF, 0xFF, 0xFF, 0xFF, 0xFF, 0xFF, 0xFF, 0xFF]]]\<rparr>)"
proof -
  have c: "connected ex_ready"
    by (simp add: ex_ready_eq)
  have n: "opts_name (opts ex_ready) = Some ''test1''"
    by (simp add: ex_ready_eq Client_def ex_opts_def)
  have r: "replicate 8 (0xFF::byte) = [0xFF, 0xFF, 0xFF, 0xFF, 0xFF, 0xFF, 0xFF, 0xFF]"
    by (simp add: numeral_eq_Suc)
  from mode_request_encoding [OF c] c show ?thesis
    by (simp add: n r setMode_key_def Buffer_from_def)
qed

text \<open>
  Claim C9, as the client has it. On a connected client, \<^verbatim>\<open>setMode\<close> with \<^verbatim>\<open>mode.backfill\<close>
  equal to 0 sends a request whose flag word has bit 0 clear and whose body holds the
  vbucket list only, with no start position before it. And whatever the mode, a request
  whose flag word has bit 0 set comes from a \<^verbatim>\<open>mode.backfill\<close> that is not 0 and starts
  its body with the eight bytes of the integer part of that number modulo \<open>2 ^ 64\<close>,
  which are not the eight bytes of the position 0 when the magnitude of the number is
  at least 1 and below \<open>2 ^ 64\<close>.
\<close>

theorem backfill_zero:
  assumes "connected c" and "backfill md = Some 0"
  shows "\<not> bit (setMode_flags md) 0 \<and>
     mode_body md =
       (case vbuckets md of
          None \<Rightarrow> []
        | Some vs \<Rightarrow> uint16be (length vs) @ concat (map uint16be vs)) \<and>
     setMode md c =
       (if mode_encodable md
        then (None, c\<lparr>mode := Some md, trace := trace c @
               [Send (createHeader\<lparr>magic := 0x80, opcode := 0x40, extrasLength := 4,
                        keyLength := length (setMode_key (opts c)),
                        dataLength := 4 + length (setMode_key (opts c))
                                      + length (mode_body md)\<rparr>)
                  [[0, 0, 0, ucast (setMode_flags md)], setMode_key (opts c),
                   mode_body md]]\<rparr>)
        else (Some RangeError, c\<lparr>mode := Some md\<rparr>)) \<and>
     (\<forall>md' c'. connected c' \<and> mode_encodable md' \<and> bit (setMode_flags md') 0 \<longrightarrow>
        (\<exists>v. backfill md' = Some v \<and> v \<noteq> 0 \<and>
           setMode md' c' =
             (None, c'\<lparr>mode := Some md', trace := trace c' @
                [Send (createHeader\<lparr>magic := 0x80, opcode := 0x40, extrasLength := 4,
                         keyLength := length (setMode_key (opts c')),
                         dataLength := 4 + length (setMode_key (opts c'))
                                       + length (mode_body md')\<rparr>)
                   [[0, 0, 0, ucast (setMode_flags md')], setMode_key (opts c'),
                    mode_body md']]\<rparr>) \<and>
           take 8 (mode_body md') = int64be (to_integer v) \<and>
           (1 \<le> \<bar>v\<bar> \<and> \<bar>v\<bar> < 18446744073709551616 \<longrightarrow>
              take 8 (mode_body md') \<noteq> [0, 0, 0, 0, 0, 0, 0, 0])))"
proof -
  from assms(2) have f: "\<not> truthy_num (backfill md)"
    by (simp add: truthy_num_def)
  then have a: "\<not> bit (setMode_flags md) 0"
    by (simp add: flags_bits)
  from f have b: "mode_body md =
       (case vbuckets md of
          None \<Rightarrow> []
        | Some vs \<Rightarrow> uint16be (length vs) @ concat (map uint16be vs))"
    by (simp add: mode_body_def)
  have d: "\<exists>v. backfill md' = Some v \<and> v \<noteq> 0 \<and>
           setMode md' c' =
             (None, c'\<lparr>mode := Some md', trace := trace c' @
                [Send (createHeader\<lparr>magic := 0x80, opcode := 0x40, extrasLength := 4,
                         keyLength := length (setMode_key (opts c')),
                         dataLength := 4 + length (setMode_key (opts c'))
                                       + length (mode_body md')\<rparr>)
                   [[0, 0, 0, ucast (setMode_flags md')], setMode_key (opts c'),
                    mode_body md']]\<rparr>) \<and>
           take 8 (mode_body md') = int64be (to_integer v) \<and>
           (1 \<le> \<bar>v\<bar> \<and> \<bar>v\<bar> < 18446744073709551616 \<longrightarrow>
              take 8 (mode_body md') \<noteq> [0, 0, 0, 0, 0, 0, 0, 0])"
    if "connected c'" and "mode_encodable md'" and "bit (setMode_flags md') 0" for md' c'
  proof -
    from that(3) have "truthy_num (backfill md')"
      by (simp add: flags_bits)
    from mode_body_backfill [OF this]
    obtain v where v: "backfill md' = Some v" "v \<noteq> 0"
      "take 8 (mode_body md') = int64be (to_integer v)"
      by blast
    have "take 8 (mode_body md') \<noteq> [0, 0, 0, 0, 0, 0, 0, 0]"
      if "1 \<le> \<bar>v\<bar>" and "\<bar>v\<bar> < 18446744073709551616"
    proof -
      from to_integer_bounds [OF that]
      have "to_integer v \<noteq> 0" and "\<bar>to_integer v\<bar> < 18446744073709551616"
        by simp_all
      from int64be_nonzero [OF this] v(3) show ?thesis by simp
    qed
    with v setMode_connected [OF that(1), of md'] that(2) show ?thesis
      by simp
  qed
  from a b d setMode_connected [OF assms(1), of md] show ?thesis
    by blast
qed

theorem backfill_zero_witness:
  "connected ex_ready \<and> backfill (ex_mode\<lparr>backfill := Some 0\<rparr>) = Some 0 \<and>
   setMode (ex_mode\<lparr>backfill := Some 0\<rparr>) ex_ready =
     (None, ex_ready\<lparr>mode := Some (ex_mode\<lparr>backfill := Some 0\<rparr>), trace := trace ex_ready @
        [Send (createHeader\<lparr>magic := 0x80, opcode := 0x40, extrasLength := 4,
                 keyLength := 5, dataLength := 9\<rparr>)
           [[0, 0, 0, 0x20], Buffer_from ''test1'', []]]\<rparr>)"
proof -
  have c: "connected ex_ready"
    by (simp add: ex_ready_eq)
  have z: "backfill (ex_mode\<lparr>backfill := Some 0\<rparr>) = Some 0"
    by simp
  have n: "opts_name (opts ex_ready) = Some ''test1''"
    by (simp add: ex_ready_eq Client_def ex_opts_def)
  have v: "vbuckets (ex_mode\<lparr>backfill := Some 0\<rparr>) = None"
    by (simp add: ex_mode_def)
  have e: "mode_encodable (ex_mode\<lparr>backfill := Some 0\<rparr>)"
    by (simp add: mode_encodable_def ex_mode_def)
  have f: "setMode_flags (ex_mode\<lparr>backfill := Some 0\<rparr>) = 0x20"
    by (simp add: setMode_flags_def ex_mode_def truthy_num_def)
  from backfill_zero [OF c z] c show ?thesis
    by (simp add: n v e f setMode_key_def Buffer_from_def)
qed

text \<open>
  The start position 0 can be asked for: \<^verbatim>\<open>mode.backfill\<close> equal to \<open>2 ^ 64\<close> is truthy, and
  its eight bytes are those of 0. The request has bit 0 of the flag word set and a body
  of eight zero bytes.
\<close>

theorem backfill_wrapped:
  "connected ex_ready \<and> backfill ex_mode_wrapped = Some 18446744073709551616 \<and>
   bit (setMode_flags ex_mode_wrapped) 0 \<and>
   setMode ex_mode_wrapped ex_ready =
     (None, ex_ready\<lparr>mode := Some ex_mode_wrapped, trace := trace ex_ready @
        [Send (createHeader\<lparr>magic := 0x80, opcode := 0x40, extrasLength := 4,
                 keyLength := 5, dataLength := 17\<rparr>)
           [[0, 0, 0, 0x01], Buffer_from ''test1'', [0, 0, 0, 0, 0, 0, 0, 0]]]\<rparr>)"
proof -
  have c: "connected ex_ready"
    by (simp add: ex_ready_eq)
  have n: "opts_name (opts ex_ready) = Some ''test1''"
    by (simp add: ex_ready_eq Client_def ex_opts_def)
  have f: "setMode_flags ex_mode_wrapped = 0x01"
    by (simp add: setMode_flags_def ex_mode_wrapped_def truthy_num_def)
  have k: "setMode_chunks ex_mode_wrapped = Some [[0, 0, 0, 0, 0, 0, 0, 0]]"
    by (simp add: setMode_chunks_def ex_mode_wrapped_def truthy_num_def Int64_buffer_def
        int64be_def to_integer_def)
  have s: "setMode ex_mode_wrapped ex_ready =
     (None, ex_ready\<lparr>mode := Some ex_mode_wrapped, trace := trace ex_ready @
        [Send (createHeader\<lparr>magic := 0x80, opcode := 0x40, extrasLength := 4,
                 keyLength := 5, dataLength := 17\<rparr>)
           [[0, 0, 0, 0x01], Buffer_from ''test1'', [0, 0, 0, 0, 0, 0, 0, 0]]]\<rparr>)"
    using c
    by (simp add: setMode_def f k n createUInt32BE_def uint32be_def setMode_key_def
        conn_send_def log_def Let_def Buffer_from_def)
  from c f s show ?thesis
    by (simp add: ex_mode_wrapped_def)
qed

subsection \<open>The dispatch of inbound packets\<close>

text \<open>
  Claim C7. For every inbound packet, whatever the client's state and the opcode,
  \<^verbatim>\<open>_onData\<close> first emits \<^verbatim>\<open>'data'\<close> with the header, the extras, the key and the body as
  they came, and the handler of the opcode, if there is one, runs on the client that has
  emitted it: in the log, the raw event comes before everything the handler does.
\<close>

theorem data_emitted_first:
  "onData response h extras key body c =
     (case handlers response (opcode h) of
        Some handler \<Rightarrow> handler h extras key body (log (Emit (Ev_data h extras key body)) c)
      | None \<Rightarrow> (None, log (Emit (Ev_data h extras key body)) c)) \<and>
   (\<exists>rest. trace (snd (onData response h extras key body c)) =
      trace c @ Emit (Ev_data h extras key body) # rest)"
proof (cases "handlers response (opcode h)")
  case None
  then show ?thesis
    by (simp add: onData_dispatch log_def)
next
  case (Some handler)
  from handlers_grow [OF this, of h extras key body "log (Emit (Ev_data h extras key body)) c"]
  obtain rest where "trace (snd (handler h extras key body
      (log (Emit (Ev_data h extras key body)) c))) = trace c @ Emit (Ev_data h extras key body) # rest"
    by (auto simp add: log_def)
  with Some show ?thesis
    by (simp add: onData_dispatch)
qed

theorem data_emitted_first_witness:
  "trace (snd (onData ex_plain (ex_header 0x41) [] [] [] ex_streaming)) =
     trace ex_streaming @ [Emit (Ev_data (ex_header 0x41) [] [] [])] \<and>
   fst (onData ex_plain (ex_header 0x41) [] [] [] ex_streaming) = Some RangeError \<and>
   trace (snd (onData ex_plain (ex_header 0x43) ex_delete_extras [] [] (Client ex_opts))) =
     [Emit (Ev_data (ex_header 0x43) ex_delete_extras [] []),
      Emit (Ev_flush \<lparr>misc_header = ex_header 0x43,
         misc_extras = \<lparr>engine = 3, flags = 0, ttl = 0, reserved = [0, 0, 0]\<rparr>\<rparr>)]"
  using data_emitted_first [of ex_plain "ex_header 0x41" "[]" "[]" "[]" ex_streaming]
    data_emitted_first [of ex_plain "ex_header 0x43" ex_delete_extras "[]" "[]" "Client ex_opts"]
  by (simp add: handlers_def ex_header_def createHeader_def handleMutation_def
      read_mutation_extras_def readUInt16BE_def handleFlush_def read_tap_extras_def
      readUInt8_def ex_delete_extras_def slice_def emit_def log_def Client_def)

text \<open>
  Claim C8. An inbound packet whose opcode is none of 0x20, 0x21, 0x41, 0x42, 0x43 and
  0x44 (0x99, say, while streaming) has no handler: the raw \<^verbatim>\<open>'data'\<close> event is the only
  thing emitted, nothing is sent, and the client is otherwise unchanged.
\<close>

theorem unknown_opcode_ignored:
  assumes "opcode h \<notin> {0x20, 0x21, 0x41, 0x42, 0x43, 0x44}"
  shows "onData response h extras key body c =
     (None, c\<lparr>trace := trace c @ [Emit (Ev_data h extras key body)]\<rparr>)"
  using assms by (simp add: onData_dispatch handlers_def log_def)

theorem unknown_opcode_ignored_witness:
  "opcode (ex_header 0x99) \<notin> {0x20, 0x21, 0x41, 0x42, 0x43, 0x44} \<and>
   session_state ex_streaming = Streaming \<and>
   onData ex_plain (ex_header 0x99) [] [] [] ex_streaming =
     (None, ex_streaming\<lparr>trace := trace ex_streaming @
        [Emit (Ev_data (ex_header 0x99) [] [] [])]\<rparr>) \<and>
   session_state (snd (onData ex_plain (ex_header 0x99) [] [] [] ex_streaming)) = Streaming"
proof -
  have o: "opcode (ex_header 0x99) \<notin> {0x20, 0x21, 0x41, 0x42, 0x43, 0x44}"
    by (simp add: ex_header_def createHeader_def)
  have s: "session_state ex_streaming = Streaming"
    by (simp add: session_state_def ex_streaming_eq)
  have t: "session_state (ex_streaming\<lparr>trace := trace ex_streaming @
        [Emit (Ev_data (ex_header 0x99) [] [] [])]\<rparr>) = Streaming"
    by (simp add: session_state_def ex_streaming_eq)
  from unknown_opcode_ignored [OF o, of ex_plain "[]" "[]" "[]" ex_streaming] o s t
  show ?thesis
    by simp
qed

end
